theory Spec2Isabelle
  imports Main
begin

unbundle bit_operations_syntax

section \<open>Python values and exceptions\<close>

text \<open>
  The values that reach \<^verbatim>\<open>validate_cert_reqs\<close> and the \<^verbatim>\<open>cert_reqs\<close> argument of
  \<^verbatim>\<open>get_ssl_context\<close> are untyped Python objects. The model keeps the kinds that the
  code tells apart: \<^verbatim>\<open>None\<close>, booleans, integers and strings, and \<open>PyObject\<close> for
  any other object, known by its identity only. Floating-point numbers are left out.
\<close>

datatype pyval = PyNone | PyBool bool | PyInt int | PyStr string | PyObject nat

text \<open>Python's \<^verbatim>\<open>==\<close>: a bool is the integer 0 or 1; values of other kinds are equal
  only to values of their own kind.\<close>

fun py_num :: "pyval \<Rightarrow> int option" where
  "py_num (PyBool b) = Some (if b then 1 else 0)"
| "py_num (PyInt i) = Some i"
| "py_num PyNone = None"
| "py_num (PyStr s) = None"
| "py_num (PyObject n) = None"

definition py_eq :: "pyval \<Rightarrow> pyval \<Rightarrow> bool" where
  "py_eq a b =
     (case (py_num a, py_num b) of
        (Some i, Some j) \<Rightarrow> i = j
      | (None, None) \<Rightarrow> a = b
      | _ \<Rightarrow> False)"

text \<open>The exceptions that leave the module: \<^verbatim>\<open>ValueError\<close> and
  \<^verbatim>\<open>ConfigurationError\<close> are raised by the module itself, with their message;
  \<open>SSLError\<close> stands for whatever a call into the \<^verbatim>\<open>ssl\<close> library raises when a
  file cannot be loaded, and \<open>OSError\<close> for a failure of \<^verbatim>\<open>wincertstore\<close>; both
  pass through the module unchanged.\<close>

datatype py_error =
    ValueError string
  | ConfigurationError string
  | SSLError string
  | OSError string
  | AttributeError string

text \<open>The constants of the \<^verbatim>\<open>ssl\<close> module that the source names.\<close>

definition CERT_NONE :: pyval where "CERT_NONE = PyInt 0"
definition CERT_OPTIONAL :: pyval where "CERT_OPTIONAL = PyInt 1"
definition CERT_REQUIRED :: pyval where "CERT_REQUIRED = PyInt 2"
definition PROTOCOL_SSLv23 :: pyval where "PROTOCOL_SSLv23 = PyInt 2"
definition VERIFY_CRL_CHECK_LEAF :: int where "VERIFY_CRL_CHECK_LEAF = 4"

section \<open>validate\_cert\_reqs (lines 54--68)\<close>

text \<open>
  The first argument is the attribute table of the \<^verbatim>\<open>ssl\<close> module:
  \<^verbatim>\<open>hasattr(ssl, value)\<close> is \<open>ssl value \<noteq> None\<close> and \<^verbatim>\<open>getattr(ssl, value)\<close> is the
  stored value. The membership test \<^verbatim>\<open>value in (a, b, c)\<close> compares with \<^verbatim>\<open>==\<close>.
\<close>

definition cert_reqs_message :: "string \<Rightarrow> string" where
  "cert_reqs_message option =
     ''The value of '' @ option @ '' must be one of: '' @
     ''`ssl.CERT_NONE`, `ssl.CERT_OPTIONAL` or '' @
     ''`ssl.CERT_REQUIRED''"

definition validate_cert_reqs ::
  "(string \<rightharpoonup> pyval) \<Rightarrow> string \<Rightarrow> pyval \<Rightarrow> py_error + pyval" where
  "validate_cert_reqs ssl option value =
     (if value = PyNone then Inr value
      else
        let value' =
              (case value of
                 PyStr s \<Rightarrow> (case ssl s of Some v \<Rightarrow> v | None \<Rightarrow> value)
               | _ \<Rightarrow> value)
        in if py_eq value' CERT_NONE \<or> py_eq value' CERT_OPTIONAL \<or> py_eq value' CERT_REQUIRED
           then Inr value'
           else Inl (ValueError (cert_reqs_message option)))"

text \<open>The definition used when the \<^verbatim>\<open>ssl\<close> module cannot be imported
  (lines 139--143).\<close>

definition no_ssl_validate_message :: "string \<Rightarrow> string" where
  "no_ssl_validate_message option =
     ''The value of '' @ option @ '' is set but can't be '' @
     ''validated. The ssl module is not available''"

definition validate_cert_reqs_no_ssl :: "string \<Rightarrow> pyval \<Rightarrow> py_error + pyval" where
  "validate_cert_reqs_no_ssl option dummy =
     Inl (ConfigurationError (no_ssl_validate_message option))"

text \<open>An attribute table holding the names of the \<^verbatim>\<open>ssl\<close> module that this source
  file itself reads (lines 64, 95, 102, 103, 112), with CPython's values.\<close>

definition cpython_ssl :: "string \<rightharpoonup> pyval" where
  "cpython_ssl =
     [''CERT_NONE'' \<mapsto> PyInt 0,
      ''CERT_OPTIONAL'' \<mapsto> PyInt 1,
      ''CERT_REQUIRED'' \<mapsto> PyInt 2,
      ''PROTOCOL_SSLv23'' \<mapsto> PyInt 2,
      ''OP_NO_SSLv2'' \<mapsto> PyInt 16777216,
      ''OP_NO_SSLv3'' \<mapsto> PyInt 33554432,
      ''VERIFY_CRL_CHECK_LEAF'' \<mapsto> PyInt 4]"


section \<open>The runtime and the module's state\<close>

text \<open>
  What the module finds out about the interpreter it runs in, and what the library calls
  answer, are parameters of the model. \<open>HAVE_SSL\<close>, \<open>HAVE_CERTIFI\<close> and
  \<open>HAVE_WINCERTSTORE\<close> are the module's own flags (lines 21--39); \<open>platform\<close> is
  \<^verbatim>\<open>sys.platform\<close>; \<open>ssl_attrs\<close> is the attribute table of the \<^verbatim>\<open>ssl\<close> module. A
  fresh \<^verbatim>\<open>SSLContext\<close> has the attribute \<^verbatim>\<open>options\<close> (\<^verbatim>\<open>verify_flags\<close>) exactly when
  \<open>ctx_options\<close> (\<open>ctx_verify_flags\<close>) is not \<open>None\<close>, and then with that initial
  value. Each \<open>_err\<close> field gives the message of the exception that the library call
  raises on that argument, \<open>None\<close> when the call returns.
\<close>

record runtime =
  HAVE_SSL :: bool
  HAVE_CERTIFI :: bool
  HAVE_WINCERTSTORE :: bool
  platform :: string
  ssl_attrs :: "string \<rightharpoonup> pyval"
  ctx_options :: "int option"
  ctx_verify_flags :: "int option"
  ctx_has_load_default_certs :: bool
  ctx_has_set_default_verify_paths :: bool
  load_cert_chain_err :: "string \<Rightarrow> string option \<Rightarrow> string option"
  load_verify_locations_err :: "string \<Rightarrow> string option"
  certifi_where :: string
  CertFile_err :: "string option"
  CertFile_name :: "nat \<Rightarrow> string"

text \<open>A \<^verbatim>\<open>wincertstore.CertFile\<close>: the temporary file it writes and the stores added
  to it; \<open>cf_id\<close> tells two objects apart.\<close>

record certfile =
  cf_id :: nat
  cf_name :: string
  cf_stores :: "string list"

text \<open>The calls that leave the module, in the order they are made.\<close>

datatype event =
    Ev_SSLContext
  | Ev_load_cert_chain string "string option"
  | Ev_load_verify_locations string
  | Ev_load_default_certs
  | Ev_set_default_verify_paths
  | Ev_CertFile
  | Ev_addstore string
  | Ev_atexit_register nat
  | Ev_certifi_where

text \<open>The state shared by all calls: the global \<^verbatim>\<open>_WINCERTS\<close> (line 45), the
  functions registered with \<^verbatim>\<open>atexit\<close> (each the \<^verbatim>\<open>close\<close> of the \<^verbatim>\<open>CertFile\<close>
  with that id), the number of \<^verbatim>\<open>CertFile\<close> objects made so far, and the trace of
  library calls. An exception does not undo what was done before it.\<close>

record world =
  WINCERTS :: "certfile option"
  atexit_funcs :: "nat list"
  certfiles_made :: nat
  trace :: "event list"

definition log :: "event list \<Rightarrow> world \<Rightarrow> world" where
  "log evs w = w\<lparr>trace := trace w @ evs\<rparr>"

type_synonym 'a outcome = "(py_error + 'a) \<times> world"

section \<open>\_load\_wincerts (lines 70--79)\<close>

definition load_wincerts :: "runtime \<Rightarrow> world \<Rightarrow> unit outcome" where
  "load_wincerts env w =
     (let n = certfiles_made w;
          w1 = log [Ev_CertFile] (w\<lparr>certfiles_made := Suc n\<rparr>)
      in case CertFile_err env of
           Some m \<Rightarrow> (Inl (OSError m), w1)
         | None \<Rightarrow>
             let certfile = \<lparr>cf_id = n, cf_name = CertFile_name env n, cf_stores = []\<rparr>;
                 certfile = certfile\<lparr>cf_stores := cf_stores certfile @ [''CA'']\<rparr>;
                 certfile = certfile\<lparr>cf_stores := cf_stores certfile @ [''ROOT'']\<rparr>;
                 w2 = log [Ev_addstore ''CA'', Ev_addstore ''ROOT'', Ev_atexit_register n] w1;
                 w3 = w2\<lparr>atexit_funcs := atexit_funcs w2 @ [n]\<rparr>
             in (Inr (), w3\<lparr>WINCERTS := Some certfile\<rparr>))"

section \<open>get\_ssl\_context (lines 89--137)\<close>

text \<open>The context object under construction. \<open>verify_locations\<close> lists the files
  passed to \<^verbatim>\<open>load_verify_locations\<close>, oldest first; \<open>default_certs\<close> and
  \<open>default_verify_paths\<close> say whether \<^verbatim>\<open>load_default_certs\<close> and
  \<^verbatim>\<open>set_default_verify_paths\<close> were called, which are taken to return. Assigning to
  \<^verbatim>\<open>verify_flags\<close> and \<^verbatim>\<open>verify_mode\<close> stores the value, as the source writes it and as
  the class of line 52 does; the class of the standard library (line 50) in addition
  refuses a \<^verbatim>\<open>verify_mode\<close> that is not one of the three constants, a check that is the
  library's and not this module's.\<close>

record ssl_context =
  protocol :: pyval
  options :: "int option"
  cert_chain :: "(string \<times> string option) option"
  verify_flags :: "int option"
  verify_locations :: "string list"
  default_certs :: bool
  default_verify_paths :: bool
  verify_mode :: pyval

definition SSLContext :: "runtime \<Rightarrow> pyval \<Rightarrow> ssl_context" where
  "SSLContext env p =
     \<lparr>protocol = p, options = ctx_options env, cert_chain = None,
      verify_flags = ctx_verify_flags env, verify_locations = [],
      default_certs = False, default_verify_paths = False, verify_mode = CERT_NONE\<rparr>"

text \<open>\<^verbatim>\<open>getattr(ssl, name, 0)\<close> for an integer flag.\<close>

definition getattr_flag :: "(string \<rightharpoonup> pyval) \<Rightarrow> string \<Rightarrow> int \<Rightarrow> int" where
  "getattr_flag ssl name d =
     (case ssl name of
        None \<Rightarrow> d
      | Some v \<Rightarrow> (case py_num v of Some i \<Rightarrow> i | None \<Rightarrow> d))"

definition load_cert_chain ::
  "runtime \<Rightarrow> string \<Rightarrow> string option \<Rightarrow> ssl_context \<Rightarrow> world \<Rightarrow> ssl_context outcome" where
  "load_cert_chain env c k ctx w =
     (let w1 = log [Ev_load_cert_chain c k] w
      in case load_cert_chain_err env c k of
           Some m \<Rightarrow> (Inl (SSLError m), w1)
         | None \<Rightarrow> (Inr (ctx\<lparr>cert_chain := Some (c, k)\<rparr>), w1))"

definition load_verify_locations ::
  "runtime \<Rightarrow> string \<Rightarrow> ssl_context \<Rightarrow> world \<Rightarrow> ssl_context outcome" where
  "load_verify_locations env f ctx w =
     (let w1 = log [Ev_load_verify_locations f] w
      in case load_verify_locations_err env f of
           Some m \<Rightarrow> (Inl (SSLError m), w1)
         | None \<Rightarrow> (Inr (ctx\<lparr>verify_locations := verify_locations ctx @ [f]\<rparr>), w1))"

definition crl_message :: string where
  "crl_message =
     ''Support for ssl_crlfile requires '' @
     ''python2 2.7.9+ (pypy 2.5.1+) or python3 3.4+''"

definition no_ca_message :: string where
  "no_ca_message =
     ''`ssl_cert_reqs` is not ssl.CERT_NONE and no system '' @
     ''CA certificates could be loaded. `ssl_ca_certs` is '' @
     ''required.''"

definition no_ssl_message :: string where
  "no_ssl_message = ''The ssl module is not available.''"

text \<open>Sequencing: an exception ends the call with the state reached so far.\<close>

definition and_then :: "'a outcome \<Rightarrow> ('a \<Rightarrow> world \<Rightarrow> 'b outcome) \<Rightarrow> 'b outcome" where
  "and_then r f = (case r of (Inl e, w) \<Rightarrow> (Inl e, w) | (Inr a, w) \<Rightarrow> f a w)"

text \<open>Lines 95--103: the new context, with SSLv2 and SSLv3 switched off where the
  context has \<^verbatim>\<open>options\<close>.\<close>

definition initial_context :: "runtime \<Rightarrow> ssl_context" where
  "initial_context env =
     (let ctx = SSLContext env PROTOCOL_SSLv23
      in case options ctx of
           None \<Rightarrow> ctx
         | Some opts \<Rightarrow>
             ctx\<lparr>options :=
               Some ((opts OR getattr_flag (ssl_attrs env) ''OP_NO_SSLv2'' 0)
                       OR getattr_flag (ssl_attrs env) ''OP_NO_SSLv3'' 0)\<rparr>)"

definition new_context :: "runtime \<Rightarrow> world \<Rightarrow> ssl_context outcome" where
  "new_context env w = (Inr (initial_context env), log [Ev_SSLContext] w)"

text \<open>Lines 104--105.\<close>

definition client_cert_step ::
  "runtime \<Rightarrow> string option \<Rightarrow> string option \<Rightarrow> ssl_context \<Rightarrow> world \<Rightarrow> ssl_context outcome"
  where
  "client_cert_step env certfile keyfile ctx w =
     (case certfile of
        None \<Rightarrow> (Inr ctx, w)
      | Some c \<Rightarrow> load_cert_chain env c keyfile ctx w)"

text \<open>Lines 106--113.\<close>

definition crl_step ::
  "runtime \<Rightarrow> string option \<Rightarrow> ssl_context \<Rightarrow> world \<Rightarrow> ssl_context outcome" where
  "crl_step env crlfile ctx w =
     (case crlfile of
        None \<Rightarrow> (Inr ctx, w)
      | Some crl \<Rightarrow>
          if verify_flags ctx = None then (Inl (ConfigurationError crl_message), w)
          else load_verify_locations env crl
                 (ctx\<lparr>verify_flags := Some VERIFY_CRL_CHECK_LEAF\<rparr>) w)"

text \<open>Lines 125--128: under the lock, fill \<^verbatim>\<open>_WINCERTS\<close> if it is still \<^verbatim>\<open>None\<close>;
  then load the file it names. One call runs alone here, so the lock is free when it is
  taken; the interleaving of several callers is modelled further down.\<close>

definition wincerts_step :: "runtime \<Rightarrow> ssl_context \<Rightarrow> world \<Rightarrow> ssl_context outcome" where
  "wincerts_step env ctx w =
     and_then (if WINCERTS w = None then load_wincerts env w else (Inr (), w))
       (\<lambda>_ w1. case WINCERTS w1 of
                  None \<Rightarrow> (Inl (AttributeError ''name''), w1)
                | Some cf \<Rightarrow> load_verify_locations env (cf_name cf) ctx w1)"

text \<open>Lines 114--135.\<close>

definition ca_step ::
  "runtime \<Rightarrow> string option \<Rightarrow> pyval \<Rightarrow> ssl_context \<Rightarrow> world \<Rightarrow> ssl_context outcome" where
  "ca_step env ca_certs cert_reqs ctx w =
     (case ca_certs of
        Some ca \<Rightarrow> load_verify_locations env ca ctx w
      | None \<Rightarrow>
          if \<not> py_eq cert_reqs CERT_NONE then
            if ctx_has_load_default_certs env then
              (Inr (ctx\<lparr>default_certs := True\<rparr>), log [Ev_load_default_certs] w)
            else if platform env \<noteq> ''win32'' \<and> ctx_has_set_default_verify_paths env then
              (Inr (ctx\<lparr>default_verify_paths := True\<rparr>), log [Ev_set_default_verify_paths] w)
            else if platform env = ''win32'' \<and> HAVE_WINCERTSTORE env then
              wincerts_step env ctx w
            else if HAVE_CERTIFI env then
              load_verify_locations env (certifi_where env) ctx (log [Ev_certifi_where] w)
            else (Inl (ConfigurationError no_ca_message), w)
          else (Inr ctx, w))"

definition get_ssl_context ::
  "runtime \<Rightarrow> world \<Rightarrow> string option \<Rightarrow> string option \<Rightarrow> string option \<Rightarrow> pyval \<Rightarrow>
   string option \<Rightarrow> ssl_context outcome" where
  "get_ssl_context env w certfile keyfile ca_certs cert_reqs crlfile =
     and_then (new_context env w) (\<lambda>ctx w.
     and_then (client_cert_step env certfile keyfile ctx w) (\<lambda>ctx w.
     and_then (crl_step env crlfile ctx w) (\<lambda>ctx w.
     and_then (ca_step env ca_certs cert_reqs ctx w) (\<lambda>ctx w.
       (Inr (ctx\<lparr>verify_mode :=
                    (if cert_reqs = PyNone then CERT_REQUIRED else cert_reqs)\<rparr>), w)))))"

text \<open>The definition used when the \<^verbatim>\<open>ssl\<close> module cannot be imported
  (lines 145--147).\<close>

definition get_ssl_context_no_ssl :: "world \<Rightarrow> ssl_context outcome" where
  "get_ssl_context_no_ssl w = (Inl (ConfigurationError no_ssl_message), w)"

section \<open>The module as imported (lines 47, 138)\<close>

text \<open>The names \<^verbatim>\<open>validate_cert_reqs\<close> and \<^verbatim>\<open>get_ssl_context\<close> are bound to one pair
  of definitions or the other, by \<open>HAVE_SSL\<close>.\<close>

definition module_validate_cert_reqs :: "runtime \<Rightarrow> string \<Rightarrow> pyval \<Rightarrow> py_error + pyval" where
  "module_validate_cert_reqs env option value =
     (if HAVE_SSL env then validate_cert_reqs (ssl_attrs env) option value
      else validate_cert_reqs_no_ssl option value)"

definition module_get_ssl_context ::
  "runtime \<Rightarrow> world \<Rightarrow> string option \<Rightarrow> string option \<Rightarrow> string option \<Rightarrow> pyval \<Rightarrow>
   string option \<Rightarrow> ssl_context outcome" where
  "module_get_ssl_context env w certfile keyfile ca_certs cert_reqs crlfile =
     (if HAVE_SSL env then get_ssl_context env w certfile keyfile ca_certs cert_reqs crlfile
      else get_ssl_context_no_ssl w)"

section \<open>Reaching the choice of the CA certificates\<close>

text \<open>Line 114 is reached when neither of the two steps before it raises: the client
  certificate, if one is given, loads (line 105), and the CRL file, if one is given,
  finds \<^verbatim>\<open>verify_flags\<close> on the context and loads (lines 107--113).\<close>

definition client_cert_loads :: "runtime \<Rightarrow> string option \<Rightarrow> string option \<Rightarrow> bool" where
  "client_cert_loads env certfile keyfile =
     (case certfile of None \<Rightarrow> True | Some c \<Rightarrow> load_cert_chain_err env c keyfile = None)"

definition crl_loads :: "runtime \<Rightarrow> string option \<Rightarrow> bool" where
  "crl_loads env crlfile =
     (case crlfile of
        None \<Rightarrow> True
      | Some crl \<Rightarrow> ctx_verify_flags env \<noteq> None \<and> load_verify_locations_err env crl = None)"

text \<open>The library calls made on the way to line 114, and the context as it is there.\<close>

definition cert_events :: "string option \<Rightarrow> string option \<Rightarrow> event list" where
  "cert_events certfile keyfile =
     (case certfile of None \<Rightarrow> [] | Some c \<Rightarrow> [Ev_load_cert_chain c keyfile])"

definition crl_events :: "string option \<Rightarrow> event list" where
  "crl_events crlfile =
     (case crlfile of None \<Rightarrow> [] | Some crl \<Rightarrow> [Ev_load_verify_locations crl])"

definition prelude_events :: "string option \<Rightarrow> string option \<Rightarrow> string option \<Rightarrow> event list"
  where
  "prelude_events certfile keyfile crlfile =
     Ev_SSLContext # cert_events certfile keyfile @ crl_events crlfile"

definition with_cert :: "string option \<Rightarrow> string option \<Rightarrow> ssl_context \<Rightarrow> ssl_context" where
  "with_cert certfile keyfile ctx =
     (case certfile of None \<Rightarrow> ctx | Some c \<Rightarrow> ctx\<lparr>cert_chain := Some (c, keyfile)\<rparr>)"

definition with_crl :: "string option \<Rightarrow> ssl_context \<Rightarrow> ssl_context" where
  "with_crl crlfile ctx =
     (case crlfile of
        None \<Rightarrow> ctx
      | Some crl \<Rightarrow>
          ctx\<lparr>verify_flags := Some VERIFY_CRL_CHECK_LEAF,
              verify_locations := verify_locations ctx @ [crl]\<rparr>)"

definition prelude_context ::
  "runtime \<Rightarrow> string option \<Rightarrow> string option \<Rightarrow> string option \<Rightarrow> ssl_context" where
  "prelude_context env certfile keyfile crlfile =
     with_crl crlfile (with_cert certfile keyfile (initial_context env))"

text \<open>Line 136.\<close>

definition final_mode :: "pyval \<Rightarrow> pyval" where
  "final_mode cert_reqs = (if cert_reqs = PyNone then CERT_REQUIRED else cert_reqs)"

section \<open>The order of CA sources, in the words of the specification\<close>

text \<open>Steps 3 to 7 of the specification's resolution chain, over the capabilities the
  source tests: the runtime's default-certificate loader, the generic default verify
  paths off the OS-store platform, the OS store on it, the bundled CA file, and nothing.\<close>

datatype ca_source =
  SystemDefault | DefaultVerifyPaths | OSStore | BundledCA | NoTrustMaterial

definition on_os_store_platform :: "runtime \<Rightarrow> bool" where
  "on_os_store_platform env \<longleftrightarrow> platform env = ''win32''"

definition spec_ca_source :: "runtime \<Rightarrow> ca_source" where
  "spec_ca_source env =
     (if ctx_has_load_default_certs env then SystemDefault
      else if \<not> on_os_store_platform env \<and> ctx_has_set_default_verify_paths env
        then DefaultVerifyPaths
      else if on_os_store_platform env \<and> HAVE_WINCERTSTORE env then OSStore
      else if HAVE_CERTIFI env then BundledCA
      else NoTrustMaterial)"

text \<open>What using each source means: the calls it makes, in order. Using the OS store
  opens it only when \<^verbatim>\<open>_WINCERTS\<close> is still empty.\<close>

definition os_store_events :: "runtime \<Rightarrow> world \<Rightarrow> event list" where
  "os_store_events env w =
     (case WINCERTS w of
        Some cf \<Rightarrow> [Ev_load_verify_locations (cf_name cf)]
      | None \<Rightarrow>
          Ev_CertFile #
          (case CertFile_err env of
             Some m \<Rightarrow> []
           | None \<Rightarrow>
               [Ev_addstore ''CA'', Ev_addstore ''ROOT'',
                Ev_atexit_register (certfiles_made w),
                Ev_load_verify_locations (CertFile_name env (certfiles_made w))]))"

definition source_events :: "runtime \<Rightarrow> world \<Rightarrow> ca_source \<Rightarrow> event list" where
  "source_events env w src =
     (case src of
        SystemDefault \<Rightarrow> [Ev_load_default_certs]
      | DefaultVerifyPaths \<Rightarrow> [Ev_set_default_verify_paths]
      | OSStore \<Rightarrow> os_store_events env w
      | BundledCA \<Rightarrow> [Ev_certifi_where, Ev_load_verify_locations (certifi_where env)]
      | NoTrustMaterial \<Rightarrow> [])"

section \<open>Concrete runtimes\<close>

text \<open>A runtime with TLS and none of the CA sources, one without TLS, and one on the
  OS-store platform; an empty state.\<close>

definition bare_runtime :: runtime where
  "bare_runtime =
     \<lparr>HAVE_SSL = True, HAVE_CERTIFI = False, HAVE_WINCERTSTORE = False,
      platform = ''linux2'', ssl_attrs = cpython_ssl,
      ctx_options = None, ctx_verify_flags = None,
      ctx_has_load_default_certs = False, ctx_has_set_default_verify_paths = False,
      load_cert_chain_err = (\<lambda>c k. None), load_verify_locations_err = (\<lambda>f. None),
      certifi_where = ''cacert.pem'', CertFile_err = None,
      CertFile_name = (\<lambda>n. ''wincerts.pem'')\<rparr>"

definition no_ssl_runtime :: runtime where
  "no_ssl_runtime = bare_runtime\<lparr>HAVE_SSL := False\<rparr>"

definition crl_runtime :: runtime where
  "crl_runtime = bare_runtime\<lparr>ctx_verify_flags := Some 0\<rparr>"

definition win_runtime :: runtime where
  "win_runtime = bare_runtime\<lparr>platform := ''win32'', HAVE_WINCERTSTORE := True\<rparr>"

definition world0 :: world where
  "world0 = \<lparr>WINCERTS = None, atexit_funcs = [], certfiles_made = 0, trace = []\<rparr>"

section \<open>Classifying exceptions and library calls\<close>


text \<open>The calls that only the search for system CA certificates makes (lines 117--130):
  the default-certificate loader, the default verify paths, opening the OS store and
  registering its release, and asking for the bundled CA file.\<close>

fun is_chain_event :: "event \<Rightarrow> bool" where
  "is_chain_event Ev_load_default_certs = True"
| "is_chain_event Ev_set_default_verify_paths = True"
| "is_chain_event Ev_CertFile = True"
| "is_chain_event (Ev_addstore s) = True"
| "is_chain_event (Ev_atexit_register n) = True"
| "is_chain_event Ev_certifi_where = True"
| "is_chain_event Ev_SSLContext = False"
| "is_chain_event (Ev_load_cert_chain c k) = False"
| "is_chain_event (Ev_load_verify_locations f) = False"

text \<open>A state reached from another by library calls none of which belongs to the
  search for system CA certificates; the global \<^verbatim>\<open>_WINCERTS\<close> and the \<^verbatim>\<open>atexit\<close>
  registrations are then as before.\<close>

definition quiet :: "world \<Rightarrow> world \<Rightarrow> bool" where
  "quiet w w' \<longleftrightarrow> (\<exists>evs. w' = log evs w \<and> list_all (\<lambda>e. \<not> is_chain_event e) evs)"

section \<open>Several callers at lines 125--128\<close>

text \<open>
  Callers of \<^verbatim>\<open>get_ssl_context\<close> that reach line 125 run on threads of their own and
  share the lock \<^verbatim>\<open>_WINCERTSLOCK\<close>, the global \<^verbatim>\<open>_WINCERTS\<close> and the \<^verbatim>\<open>atexit\<close>
  registry. Everything a caller does before line 125 is local to it. Each caller is at one
  of the following points; a step of the program is one statement of one caller.

  \<^item> \<open>AtLock\<close>: before \<^verbatim>\<open>with _WINCERTSLOCK:\<close> (line 125), which waits while another
    caller holds the lock;
  \<^item> \<open>AtTest\<close>: holding the lock, before \<^verbatim>\<open>if _WINCERTS is None:\<close> (line 126);
  \<^item> \<open>AtCertFile\<close>, \<open>AtAddCA\<close>, \<open>AtAddROOT\<close>, \<open>AtRegister\<close>, \<open>AtStore\<close>: inside
    \<^verbatim>\<open>_load_wincerts\<close>, before lines 74, 75, 76, 77 and 79, with the local \<^verbatim>\<open>certfile\<close>;
  \<^item> \<open>AtRelease\<close>: at the end of the \<^verbatim>\<open>with\<close> block, still holding the lock;
  \<^item> \<open>AtUnwind\<close>: an exception is leaving the \<^verbatim>\<open>with\<close> block, which releases the lock;
  \<^item> \<open>AtUse\<close>: before line 128, which reads \<^verbatim>\<open>_WINCERTS.name\<close>;
  \<^item> \<open>Done\<close>: past line 128, with the \<^verbatim>\<open>CertFile\<close> whose name was used;
  \<^item> \<open>Failed\<close>: left by an exception.
\<close>

datatype pc =
    AtLock
  | AtTest
  | AtCertFile
  | AtAddCA certfile
  | AtAddROOT certfile
  | AtRegister certfile
  | AtStore certfile
  | AtRelease
  | AtUnwind py_error
  | AtUse
  | Done certfile
  | Failed py_error

record threads =
  shared :: world
  lock :: "nat option"
  pcs :: "pc list"

definition goto :: "nat \<Rightarrow> pc \<Rightarrow> threads \<Rightarrow> threads" where
  "goto t p s = s\<lparr>pcs := (pcs s)[t := p]\<rparr>"

text \<open>The next statement of caller \<open>t\<close>; \<open>None\<close> when it waits for the lock or has
  finished.\<close>

definition thread_step :: "runtime \<Rightarrow> nat \<Rightarrow> threads \<Rightarrow> threads option" where
  "thread_step env t s =
     (if length (pcs s) \<le> t then None
      else
        case pcs s ! t of
          AtLock \<Rightarrow>
            (if lock s = None then Some (goto t AtTest (s\<lparr>lock := Some t\<rparr>)) else None)
        | AtTest \<Rightarrow>
            Some (goto t (if WINCERTS (shared s) = None then AtCertFile else AtRelease) s)
        | AtCertFile \<Rightarrow>
            (let n = certfiles_made (shared s);
                 sh = log [Ev_CertFile] ((shared s)\<lparr>certfiles_made := Suc n\<rparr>)
             in case CertFile_err env of
                  Some m \<Rightarrow> Some (goto t (AtUnwind (OSError m)) (s\<lparr>shared := sh\<rparr>))
                | None \<Rightarrow>
                    Some (goto t
                            (AtAddCA \<lparr>cf_id = n, cf_name = CertFile_name env n, cf_stores = []\<rparr>)
                            (s\<lparr>shared := sh\<rparr>)))
        | AtAddCA cf \<Rightarrow>
            Some (goto t (AtAddROOT (cf\<lparr>cf_stores := cf_stores cf @ [''CA'']\<rparr>))
                    (s\<lparr>shared := log [Ev_addstore ''CA''] (shared s)\<rparr>))
        | AtAddROOT cf \<Rightarrow>
            Some (goto t (AtRegister (cf\<lparr>cf_stores := cf_stores cf @ [''ROOT'']\<rparr>))
                    (s\<lparr>shared := log [Ev_addstore ''ROOT''] (shared s)\<rparr>))
        | AtRegister cf \<Rightarrow>
            (let sh = log [Ev_atexit_register (cf_id cf)] (shared s)
             in Some (goto t (AtStore cf)
                        (s\<lparr>shared := sh\<lparr>atexit_funcs := atexit_funcs sh @ [cf_id cf]\<rparr>\<rparr>)))
        | AtStore cf \<Rightarrow>
            Some (goto t AtRelease (s\<lparr>shared := (shared s)\<lparr>WINCERTS := Some cf\<rparr>\<rparr>))
        | AtRelease \<Rightarrow> Some (goto t AtUse (s\<lparr>lock := None\<rparr>))
        | AtUnwind e \<Rightarrow> Some (goto t (Failed e) (s\<lparr>lock := None\<rparr>))
        | AtUse \<Rightarrow>
            (case WINCERTS (shared s) of
               None \<Rightarrow> Some (goto t (Failed (AttributeError ''name'')) s)
             | Some cf \<Rightarrow>
                 Some (goto t (Done cf)
                         (s\<lparr>shared := log [Ev_load_verify_locations (cf_name cf)] (shared s)\<rparr>)))
        | Done cf \<Rightarrow> None
        | Failed e \<Rightarrow> None)"

text \<open>The process starts with \<^verbatim>\<open>_WINCERTS = None\<close> (line 45), the lock free (line 44)
  and no caller. A caller may arrive at line 125 at any time, and any caller that can
  move may be the next to move.\<close>

definition process_start :: threads where
  "process_start = \<lparr>shared = world0, lock = None, pcs = []\<rparr>"


text \<open>The \<^verbatim>\<open>CertFile\<close> that the first load of the process makes.\<close>

definition first_certfile :: "runtime \<Rightarrow> certfile" where
  "first_certfile env =
     \<lparr>cf_id = 0, cf_name = CertFile_name env 0, cf_stores = [''CA'', ''ROOT'']\<rparr>"



text \<open>What the point a caller is at says about the shared state, when
  \<^verbatim>\<open>CertFile()\<close> does not raise.\<close>

fun loaded :: "runtime \<Rightarrow> world \<Rightarrow> bool" where
  "loaded env sh \<longleftrightarrow>
     WINCERTS sh = Some (first_certfile env) \<and> certfiles_made sh = 1 \<and> atexit_funcs sh = [0]"

fun loading :: "world \<Rightarrow> bool" where
  "loading sh \<longleftrightarrow> WINCERTS sh = None \<and> certfiles_made sh = 1"

fun pc_ok :: "runtime \<Rightarrow> world \<Rightarrow> pc \<Rightarrow> bool" where
  "pc_ok env sh AtLock = True"
| "pc_ok env sh AtTest = (\<not> loading sh)"
| "pc_ok env sh AtCertFile =
     (WINCERTS sh = None \<and> certfiles_made sh = 0 \<and> atexit_funcs sh = [])"
| "pc_ok env sh (AtAddCA cf) =
     (loading sh \<and> atexit_funcs sh = [] \<and>
      cf = \<lparr>cf_id = 0, cf_name = CertFile_name env 0, cf_stores = []\<rparr>)"
| "pc_ok env sh (AtAddROOT cf) =
     (loading sh \<and> atexit_funcs sh = [] \<and>
      cf = \<lparr>cf_id = 0, cf_name = CertFile_name env 0, cf_stores = [''CA'']\<rparr>)"
| "pc_ok env sh (AtRegister cf) =
     (loading sh \<and> atexit_funcs sh = [] \<and> cf = first_certfile env)"
| "pc_ok env sh (AtStore cf) =
     (loading sh \<and> atexit_funcs sh = [0] \<and> cf = first_certfile env)"
| "pc_ok env sh AtRelease = loaded env sh"
| "pc_ok env sh (AtUnwind e) = False"
| "pc_ok env sh AtUse = loaded env sh"
| "pc_ok env sh (Done cf) = (loaded env sh \<and> cf = first_certfile env)"
| "pc_ok env sh (Failed e) = False"




text \<open>Running the callers in a given order of turns; a caller whose turn comes while it
  waits for the lock, or after it has finished, lets the turn pass.\<close>

fun run_schedule :: "runtime \<Rightarrow> nat list \<Rightarrow> threads \<Rightarrow> threads" where
  "run_schedule env [] s = s"
| "run_schedule env (t # ts) s =
     (case thread_step env t s of
        None \<Rightarrow> run_schedule env ts s
      | Some s' \<Rightarrow> run_schedule env ts s')"

definition callers :: "nat \<Rightarrow> threads" where
  "callers n = process_start\<lparr>pcs := replicate n AtLock\<rparr>"

text \<open>The OS-store platform when \<^verbatim>\<open>CertFile()\<close> raises.\<close>

definition broken_store_runtime :: runtime where
  "broken_store_runtime = win_runtime\<lparr>CertFile_err := Some ''store''\<rparr>"


section \<open>Sequencing, the trace and the steps before line 114\<close>

lemma and_then_Inl [simp]: "and_then (Inl e, w) f = (Inl e, w)"
  by (simp add: and_then_def)

lemma and_then_Inr [simp]: "and_then (Inr a, w) f = f a w"
  by (simp add: and_then_def)

lemma log_log [simp]: "log b (log a w) = log (a @ b) w"
  by (simp add: log_def)

lemma log_Nil [simp]: "log [] w = w"
  by (simp add: log_def)

lemma log_fields [simp]:
  "trace (log evs w) = trace w @ evs"
  "WINCERTS (log evs w) = WINCERTS w"
  "atexit_funcs (log evs w) = atexit_funcs w"
  "certfiles_made (log evs w) = certfiles_made w"
  by (simp_all add: log_def)

lemma initial_context_fields [simp]:
  "verify_flags (initial_context env) = ctx_verify_flags env"
  "verify_locations (initial_context env) = []"
  "cert_chain (initial_context env) = None"
  "default_certs (initial_context env) = False"
  "default_verify_paths (initial_context env) = False"
  "verify_mode (initial_context env) = CERT_NONE"
  "protocol (initial_context env) = PROTOCOL_SSLv23"
  by (simp_all add: initial_context_def SSLContext_def Let_def split: option.split)

lemma client_cert_step_ok:
  "client_cert_loads env certfile keyfile \<Longrightarrow>
   client_cert_step env certfile keyfile ctx w =
     (Inr (with_cert certfile keyfile ctx), log (cert_events certfile keyfile) w)"
  by (cases certfile)
     (simp_all add: client_cert_loads_def client_cert_step_def load_cert_chain_def with_cert_def
      cert_events_def Let_def)

lemma client_cert_step_fail:
  "certfile = Some c \<Longrightarrow> load_cert_chain_err env c keyfile = Some m \<Longrightarrow>
   client_cert_step env certfile keyfile ctx w =
     (Inl (SSLError m), log [Ev_load_cert_chain c keyfile] w)"
  by (simp add: client_cert_step_def load_cert_chain_def Let_def)

lemma with_cert_fields [simp]:
  "verify_flags (with_cert certfile keyfile ctx) = verify_flags ctx"
  "verify_locations (with_cert certfile keyfile ctx) = verify_locations ctx"
  "default_certs (with_cert certfile keyfile ctx) = default_certs ctx"
  "default_verify_paths (with_cert certfile keyfile ctx) = default_verify_paths ctx"
  "verify_mode (with_cert certfile keyfile ctx) = verify_mode ctx"
  by (simp_all add: with_cert_def split: option.split)

lemma crl_step_ok:
  "crl_loads env crlfile \<Longrightarrow> verify_flags ctx = ctx_verify_flags env \<Longrightarrow>
   crl_step env crlfile ctx w = (Inr (with_crl crlfile ctx), log (crl_events crlfile) w)"
  by (cases crlfile)
     (auto simp add: crl_loads_def crl_step_def load_verify_locations_def with_crl_def
      crl_events_def Let_def)

lemma prelude:
  "client_cert_loads env certfile keyfile \<Longrightarrow> crl_loads env crlfile \<Longrightarrow>
   get_ssl_context env w certfile keyfile ca_certs cert_reqs crlfile =
     and_then (ca_step env ca_certs cert_reqs (prelude_context env certfile keyfile crlfile)
                 (log (prelude_events certfile keyfile crlfile) w))
       (\<lambda>ctx w. (Inr (ctx\<lparr>verify_mode := final_mode cert_reqs\<rparr>), w))"
  by (simp add: get_ssl_context_def new_context_def client_cert_step_ok crl_step_ok
      prelude_context_def prelude_events_def final_mode_def)

lemma with_crl_fields [simp]:
  "default_certs (with_crl crlfile ctx) = default_certs ctx"
  "default_verify_paths (with_crl crlfile ctx) = default_verify_paths ctx"
  "verify_mode (with_crl crlfile ctx) = verify_mode ctx"
  "cert_chain (with_crl crlfile ctx) = cert_chain ctx"
  by (simp_all add: with_crl_def split: option.split)

lemma py_eq_consts [simp]:
  "py_eq CERT_NONE CERT_NONE" "py_eq CERT_OPTIONAL CERT_OPTIONAL"
  "py_eq CERT_REQUIRED CERT_REQUIRED"
  "\<not> py_eq CERT_REQUIRED CERT_NONE" "\<not> py_eq CERT_OPTIONAL CERT_NONE"
  "\<not> py_eq PyNone CERT_NONE"
  by (simp_all add: py_eq_def CERT_NONE_def CERT_OPTIONAL_def CERT_REQUIRED_def)

section \<open>Properties of validate\_cert\_reqs\<close>

lemma validate_cert_reqs_None:
  "validate_cert_reqs ssl option PyNone = Inr PyNone"
  by (simp add: validate_cert_reqs_def)


text \<open>What the validator does right: \<^verbatim>\<open>None\<close> passes through, each of the three
  constants is returned, each of the three names is mapped to its constant, and a string
  that names no attribute of the \<^verbatim>\<open>ssl\<close> module is refused with the message that
  carries the option's name.\<close>

lemma validate_cert_reqs_constants:
  "validate_cert_reqs ssl option CERT_NONE = Inr CERT_NONE"
  "validate_cert_reqs ssl option CERT_OPTIONAL = Inr CERT_OPTIONAL"
  "validate_cert_reqs ssl option CERT_REQUIRED = Inr CERT_REQUIRED"
  by (simp_all add: validate_cert_reqs_def py_eq_def CERT_NONE_def CERT_OPTIONAL_def
      CERT_REQUIRED_def)



lemma validate_cert_reqs_other_int:
  "i \<notin> {0, 1, 2} \<Longrightarrow>
   validate_cert_reqs ssl option (PyInt i) = Inl (ValueError (cert_reqs_message option))"
  by (simp add: validate_cert_reqs_def py_eq_def CERT_NONE_def CERT_OPTIONAL_def
      CERT_REQUIRED_def)

text \<open>
  Claim C1: a string is accepted exactly when it is one of \<^verbatim>\<open>"CERT_NONE"\<close>,
  \<^verbatim>\<open>"CERT_OPTIONAL"\<close>, \<^verbatim>\<open>"CERT_REQUIRED"\<close>, and every other value is refused. The
  code does not do this: lines 61--62 look the string up among all attributes of the
  \<^verbatim>\<open>ssl\<close> module, and line 64 accepts whatever compares equal to one of the three
  constants. The string \<^verbatim>\<open>"PROTOCOL_SSLv23"\<close> names the attribute that line 95 of this
  file reads; its value is 2, which equals \<^verbatim>\<open>ssl.CERT_REQUIRED\<close>, so the validator
  returns it instead of raising \<^verbatim>\<open>ValueError\<close>.
\<close>

lemma validate_cert_reqs_protocol_name:
  "validate_cert_reqs cpython_ssl ''ssl_cert_reqs'' (PyStr ''PROTOCOL_SSLv23'') = Inr CERT_REQUIRED"
  by (simp add: validate_cert_reqs_def cpython_ssl_def py_eq_def CERT_NONE_def
      CERT_OPTIONAL_def CERT_REQUIRED_def)

section \<open>Without the ssl module\<close>

text \<open>
  Claim C8: when the \<^verbatim>\<open>ssl\<close> module cannot be imported (\<open>HAVE_SSL\<close> is false), the
  names \<^verbatim>\<open>validate_cert_reqs\<close> and \<^verbatim>\<open>get_ssl_context\<close> are bound to the definitions of
  lines 139--147. Every call of either raises \<^verbatim>\<open>ConfigurationError\<close> saying that the
  \<^verbatim>\<open>ssl\<close> module is not available, whatever the option name, the value (\<^verbatim>\<open>None\<close>
  included) and the other arguments, and leaves the state as it was.
\<close>

theorem no_ssl_every_call_fails:
  "\<not> HAVE_SSL env \<Longrightarrow>
   module_validate_cert_reqs env option value =
     Inl (ConfigurationError (no_ssl_validate_message option)) \<and>
   module_get_ssl_context env w certfile keyfile ca_certs cert_reqs crlfile =
     (Inl (ConfigurationError no_ssl_message), w)"
  by (simp add: module_validate_cert_reqs_def module_get_ssl_context_def
      validate_cert_reqs_no_ssl_def get_ssl_context_no_ssl_def)

text \<open>The runtime without \<^verbatim>\<open>ssl\<close>, validating \<^verbatim>\<open>None\<close> and building with
  \<^verbatim>\<open>CERT_NONE\<close>.\<close>

theorem no_ssl_every_call_fails_witness:
  "\<not> HAVE_SSL no_ssl_runtime \<and>
   module_validate_cert_reqs no_ssl_runtime ''ssl_cert_reqs'' PyNone =
     Inl (ConfigurationError (no_ssl_validate_message ''ssl_cert_reqs'')) \<and>
   module_get_ssl_context no_ssl_runtime world0 None None None CERT_NONE None =
     (Inl (ConfigurationError no_ssl_message), world0)"
proof -
  have h: "\<not> HAVE_SSL no_ssl_runtime"
    by (simp add: no_ssl_runtime_def bare_runtime_def)
  show ?thesis
    using h no_ssl_every_call_fails [OF h, of "''ssl_cert_reqs''" PyNone world0 None None None
        CERT_NONE None]
    by simp
qed

section \<open>No verification and no files\<close>

lemma ca_step_explicit:
  "ca_step env (Some ca) cert_reqs ctx w = load_verify_locations env ca ctx w"
  by (simp add: ca_step_def)

lemma ca_step_none:
  "py_eq cert_reqs CERT_NONE \<Longrightarrow> ca_step env None cert_reqs ctx w = (Inr ctx, w)"
  by (simp add: ca_step_def)

lemma load_verify_locations_cases:
  "load_verify_locations env f ctx w =
     (case load_verify_locations_err env f of
        Some m \<Rightarrow> (Inl (SSLError m), log [Ev_load_verify_locations f] w)
      | None \<Rightarrow> (Inr (ctx\<lparr>verify_locations := verify_locations ctx @ [f]\<rparr>),
                 log [Ev_load_verify_locations f] w))"
  by (simp add: load_verify_locations_def Let_def split: option.split)

lemma client_cert_loads_None [simp]: "client_cert_loads env None keyfile"
  by (simp add: client_cert_loads_def)

lemma crl_loads_None [simp]: "crl_loads env None"
  by (simp add: crl_loads_def)

lemma prelude_None [simp]:
  "prelude_events None keyfile None = [Ev_SSLContext]"
  "prelude_context env None keyfile None = initial_context env"
  by (simp_all add: prelude_events_def prelude_context_def cert_events_def crl_events_def
      with_cert_def with_crl_def)

lemma final_mode_simps [simp]:
  "final_mode PyNone = CERT_REQUIRED"
  "final_mode CERT_NONE = CERT_NONE"
  "final_mode CERT_OPTIONAL = CERT_OPTIONAL"
  "final_mode CERT_REQUIRED = CERT_REQUIRED"
  by (simp_all add: final_mode_def CERT_NONE_def CERT_OPTIONAL_def CERT_REQUIRED_def)

lemma initial_context_trust_flags:
  "initial_context
     (env\<lparr>HAVE_CERTIFI := a, HAVE_WINCERTSTORE := b, platform := p,
          ctx_has_load_default_certs := c, ctx_has_set_default_verify_paths := d\<rparr>) =
   initial_context env"
  by (simp add: initial_context_def SSLContext_def Let_def split: option.split)

lemma cert_none_alone:
  "get_ssl_context env w None None None CERT_NONE None =
     (Inr ((initial_context env)\<lparr>verify_mode := CERT_NONE\<rparr>), log [Ev_SSLContext] w)"
  by (simp add: prelude ca_step_none)

text \<open>
  Claim C5: with \<^verbatim>\<open>cert_reqs = ssl.CERT_NONE\<close> and no certificate, key, CA or CRL file,
  \<^verbatim>\<open>get_ssl_context\<close> (lines 89--137) returns a context, in every runtime. The only
  library call is the constructor of the context; the context has no verify location, no
  default certificates and no default verify paths, and its \<^verbatim>\<open>verify_mode\<close> is
  \<^verbatim>\<open>CERT_NONE\<close>. None of the flags and attributes that select a source of CA
  certificates is consulted: changing them changes nothing in the outcome.
\<close>

theorem cert_none_alone_succeeds:
  "get_ssl_context env w None None None CERT_NONE None =
     (Inr ((initial_context env)\<lparr>verify_mode := CERT_NONE\<rparr>), log [Ev_SSLContext] w) \<and>
   verify_locations (initial_context env) = [] \<and>
   \<not> default_certs (initial_context env) \<and>
   \<not> default_verify_paths (initial_context env) \<and>
   get_ssl_context
     (env\<lparr>HAVE_CERTIFI := a, HAVE_WINCERTSTORE := b, platform := p,
          ctx_has_load_default_certs := c, ctx_has_set_default_verify_paths := d\<rparr>)
     w None None None CERT_NONE None =
   get_ssl_context env w None None None CERT_NONE None"
  by (simp add: cert_none_alone initial_context_trust_flags)

text \<open>On the OS-store platform with \<^verbatim>\<open>wincertstore\<close> the outcome is the one of the
  runtime that has no source of CA certificates at all.\<close>

theorem cert_none_alone_succeeds_witness:
  "map_sum id verify_mode (fst (get_ssl_context win_runtime world0 None None None CERT_NONE None)) =
     Inr CERT_NONE \<and>
   snd (get_ssl_context win_runtime world0 None None None CERT_NONE None) =
     world0\<lparr>trace := [Ev_SSLContext]\<rparr> \<and>
   get_ssl_context win_runtime world0 None None None CERT_NONE None =
   get_ssl_context bare_runtime world0 None None None CERT_NONE None"
  using cert_none_alone_succeeds [where env = bare_runtime and w = world0 and a = False
      and b = True and p = "''win32''" and c = False and d = False]
  by (simp add: win_runtime_def bare_runtime_def log_def world0_def)

section \<open>The builder takes cert\_reqs as given\<close>












section \<open>The verification mode of a returned context\<close>


lemma explicit_ca_ok:
  "client_cert_loads env certfile keyfile \<Longrightarrow> crl_loads env crlfile \<Longrightarrow>
   load_verify_locations_err env ca = None \<Longrightarrow>
   get_ssl_context env w certfile keyfile (Some ca) cert_reqs crlfile =
     (Inr ((prelude_context env certfile keyfile crlfile)
            \<lparr>verify_locations :=
               verify_locations (prelude_context env certfile keyfile crlfile) @ [ca],
             verify_mode := final_mode cert_reqs\<rparr>),
      log (prelude_events certfile keyfile crlfile @ [Ev_load_verify_locations ca]) w)"
  by (simp add: prelude ca_step_explicit load_verify_locations_cases)


lemma bare_runtime_loads [simp]:
  "load_verify_locations_err bare_runtime f = None"
  "load_cert_chain_err bare_runtime c k = None"
  "client_cert_loads bare_runtime certfile keyfile"
  by (simp_all add: bare_runtime_def client_cert_loads_def split: option.split)


section \<open>Certificate revocation lists\<close>

lemma crl_unsupported:
  "client_cert_loads env certfile keyfile \<Longrightarrow> ctx_verify_flags env = None \<Longrightarrow>
   get_ssl_context env w certfile keyfile ca_certs cert_reqs (Some crl) =
     (Inl (ConfigurationError crl_message), log (Ev_SSLContext # cert_events certfile keyfile) w)"
  by (simp add: get_ssl_context_def new_context_def client_cert_step_ok crl_step_def)

lemma crl_load_fails:
  "client_cert_loads env certfile keyfile \<Longrightarrow> ctx_verify_flags env \<noteq> None \<Longrightarrow>
   load_verify_locations_err env crl = Some m \<Longrightarrow>
   get_ssl_context env w certfile keyfile ca_certs cert_reqs (Some crl) =
     (Inl (SSLError m),
      log (Ev_SSLContext # cert_events certfile keyfile @ [Ev_load_verify_locations crl]) w)"
  by (simp add: get_ssl_context_def new_context_def client_cert_step_ok crl_step_def
      load_verify_locations_cases)

lemma load_verify_locations_keeps:
  "load_verify_locations env f ctx w = (Inr ctx', w') \<Longrightarrow>
   verify_flags ctx' = verify_flags ctx \<and> set (verify_locations ctx) \<subseteq> set (verify_locations ctx')
   \<and> Ev_load_verify_locations f \<in> set (trace w') \<and> set (trace w) \<subseteq> set (trace w')"
  by (auto simp add: load_verify_locations_def Let_def split: option.splits)

lemma load_wincerts_trace:
  "load_wincerts env w = (r, w') \<Longrightarrow> set (trace w) \<subseteq> set (trace w')"
  by (auto simp add: load_wincerts_def Let_def split: option.splits)

lemma wincerts_step_keeps:
  "wincerts_step env ctx w = (Inr ctx', w') \<Longrightarrow>
   verify_flags ctx' = verify_flags ctx \<and> set (verify_locations ctx) \<subseteq> set (verify_locations ctx')
   \<and> set (trace w) \<subseteq> set (trace w')"
  by (simp add: wincerts_step_def and_then_def
        split: prod.splits sum.splits option.splits if_splits)
     (blast dest: load_wincerts_trace load_verify_locations_keeps)+

lemma ca_step_keeps:
  "ca_step env ca_certs cert_reqs ctx w = (Inr ctx', w') \<Longrightarrow>
   verify_flags ctx' = verify_flags ctx \<and> set (verify_locations ctx) \<subseteq> set (verify_locations ctx')
   \<and> set (trace w) \<subseteq> set (trace w')"
  by (simp add: ca_step_def split: option.splits if_splits)
     (auto dest!: wincerts_step_keeps load_verify_locations_keeps)

lemma crl_step_sets:
  "crl_step env (Some crl) ctx w = (Inr ctx', w') \<Longrightarrow>
   verify_flags ctx' = Some VERIFY_CRL_CHECK_LEAF \<and> crl \<in> set (verify_locations ctx') \<and>
   Ev_load_verify_locations crl \<in> set (trace w')"
  by (auto simp add: crl_step_def load_verify_locations_def Let_def split: option.splits if_splits)

lemma crl_in_result:
  assumes "get_ssl_context env w certfile keyfile ca_certs cert_reqs (Some crl) = (Inr ctx, w')"
  shows "verify_flags ctx = Some VERIFY_CRL_CHECK_LEAF \<and> crl \<in> set (verify_locations ctx) \<and>
         Ev_load_verify_locations crl \<in> set (trace w')"
proof -
  from assms obtain c1 w1 c2 w2 c3 w3 where
    s2: "crl_step env (Some crl) c1 w1 = (Inr c2, w2)" and
    s3: "ca_step env ca_certs cert_reqs c2 w2 = (Inr c3, w3)" and
    fin: "ctx = c3\<lparr>verify_mode := (if cert_reqs = PyNone then CERT_REQUIRED else cert_reqs)\<rparr>"
         "w' = w3"
    by (auto simp add: get_ssl_context_def and_then_def new_context_def
        split: prod.splits sum.splits)
  from crl_step_sets [OF s2] ca_step_keeps [OF s3] fin show ?thesis
    by auto
qed

lemma load_verify_locations_snd:
  "snd (load_verify_locations env f ctx w) = log [Ev_load_verify_locations f] w"
  by (simp add: load_verify_locations_def Let_def split: option.split)

lemma load_wincerts_extends:
  "\<exists>evs. trace (snd (load_wincerts env w)) = trace w @ evs"
  by (simp add: load_wincerts_def Let_def split: option.split)

lemma wincerts_step_extends:
  "\<exists>evs. trace (snd (wincerts_step env ctx w)) = trace w @ evs"
proof (cases "WINCERTS w")
  case (Some cf)
  then show ?thesis
    by (simp add: wincerts_step_def load_verify_locations_snd)
next
  case None
  obtain r w1 where l: "load_wincerts env w = (r, w1)" by (cases "load_wincerts env w")
  from load_wincerts_extends [of env w] l obtain evs where e: "trace w1 = trace w @ evs"
    by auto
  show ?thesis
  proof (cases r)
    case (Inl err)
    with None l e show ?thesis by (simp add: wincerts_step_def)
  next
    case (Inr u)
    with None l e show ?thesis
      by (cases "WINCERTS w1") (simp_all add: wincerts_step_def load_verify_locations_snd)
  qed
qed

lemma ca_step_extends:
  "\<exists>evs. trace (snd (ca_step env ca_certs cert_reqs ctx w)) = trace w @ evs"
  by (cases ca_certs)
     (simp_all add: ca_step_def load_verify_locations_snd wincerts_step_extends)

lemma after_crl_extends:
  assumes "client_cert_loads env certfile keyfile" "crl_loads env crlfile"
  shows "\<exists>evs. trace (snd (get_ssl_context env w certfile keyfile ca_certs cert_reqs crlfile)) =
           trace w @ prelude_events certfile keyfile crlfile @ evs"
proof -
  let ?c = "prelude_context env certfile keyfile crlfile"
  let ?w = "log (prelude_events certfile keyfile crlfile) w"
  obtain r w1 where c: "ca_step env ca_certs cert_reqs ?c ?w = (r, w1)"
    by (cases "ca_step env ca_certs cert_reqs ?c ?w")
  from ca_step_extends [of env ca_certs cert_reqs ?c ?w] c
  obtain evs where "trace w1 = trace ?w @ evs" by auto
  with c assms show ?thesis
    by (cases r) (simp_all add: prelude)
qed

text \<open>
  Claim C6: let the client certificate, if any, load, so that line 106 is reached, and let
  a CRL file be given. If the context has no \<^verbatim>\<open>verify_flags\<close>, the call raises the
  \<^verbatim>\<open>ConfigurationError\<close> of line 108, and the library calls made are the constructor
  and the loading of the client certificate: the CRL file is never passed to
  \<^verbatim>\<open>load_verify_locations\<close>. If the context has \<^verbatim>\<open>verify_flags\<close>, the CRL file is
  passed to \<^verbatim>\<open>load_verify_locations\<close> next; when that raises, the exception is the
  outcome of the call. Every context returned has \<^verbatim>\<open>verify_flags\<close> set to
  \<^verbatim>\<open>VERIFY_CRL_CHECK_LEAF\<close> and the CRL file among its verify locations.
\<close>

theorem crl_requires_support:
  assumes "client_cert_loads env certfile keyfile"
  shows
  "(ctx_verify_flags env = None \<longrightarrow>
      get_ssl_context env w certfile keyfile ca_certs cert_reqs (Some crl) =
        (Inl (ConfigurationError crl_message),
         log (Ev_SSLContext # cert_events certfile keyfile) w) \<and>
      Ev_load_verify_locations crl \<notin> set (Ev_SSLContext # cert_events certfile keyfile)) \<and>
   (ctx_verify_flags env \<noteq> None \<longrightarrow>
      (case load_verify_locations_err env crl of
         Some m \<Rightarrow>
           get_ssl_context env w certfile keyfile ca_certs cert_reqs (Some crl) =
             (Inl (SSLError m),
              log (Ev_SSLContext # cert_events certfile keyfile @ [Ev_load_verify_locations crl]) w)
       | None \<Rightarrow>
           (\<exists>evs. trace (snd (get_ssl_context env w certfile keyfile ca_certs cert_reqs (Some crl))) =
              trace w @ Ev_SSLContext # cert_events certfile keyfile @
                Ev_load_verify_locations crl # evs))) \<and>
   (\<forall>ctx w'. get_ssl_context env w certfile keyfile ca_certs cert_reqs (Some crl) = (Inr ctx, w') \<longrightarrow>
      verify_flags ctx = Some VERIFY_CRL_CHECK_LEAF \<and> crl \<in> set (verify_locations ctx))"
proof (intro conjI impI allI)
  assume "ctx_verify_flags env = None"
  with assms show "get_ssl_context env w certfile keyfile ca_certs cert_reqs (Some crl) =
        (Inl (ConfigurationError crl_message),
         log (Ev_SSLContext # cert_events certfile keyfile) w)"
    by (rule crl_unsupported)
next
  show "Ev_load_verify_locations crl \<notin> set (Ev_SSLContext # cert_events certfile keyfile)"
    by (simp add: cert_events_def split: option.split)
next
  assume f: "ctx_verify_flags env \<noteq> None"
  show "case load_verify_locations_err env crl of
         Some m \<Rightarrow>
           get_ssl_context env w certfile keyfile ca_certs cert_reqs (Some crl) =
             (Inl (SSLError m),
              log (Ev_SSLContext # cert_events certfile keyfile @ [Ev_load_verify_locations crl]) w)
       | None \<Rightarrow>
           (\<exists>evs. trace (snd (get_ssl_context env w certfile keyfile ca_certs cert_reqs (Some crl))) =
              trace w @ Ev_SSLContext # cert_events certfile keyfile @
                Ev_load_verify_locations crl # evs)"
  proof (cases "load_verify_locations_err env crl")
    case (Some m)
    with assms f show ?thesis by (simp add: crl_load_fails)
  next
    case None
    with f have "crl_loads env (Some crl)" by (simp add: crl_loads_def)
    from after_crl_extends [OF assms this, of w ca_certs cert_reqs] None show ?thesis
      by (simp add: prelude_events_def crl_events_def)
  qed
next
  fix ctx w'
  assume "get_ssl_context env w certfile keyfile ca_certs cert_reqs (Some crl) = (Inr ctx, w')"
  from crl_in_result [OF this]
  show "verify_flags ctx = Some VERIFY_CRL_CHECK_LEAF" and "crl \<in> set (verify_locations ctx)"
    by simp_all
qed

lemma crl_runtime_fields [simp]:
  "ctx_verify_flags crl_runtime = Some 0"
  "load_verify_locations_err crl_runtime f = None"
  "load_cert_chain_err crl_runtime c k = None"
  "client_cert_loads crl_runtime certfile keyfile"
  by (simp_all add: crl_runtime_def bare_runtime_def client_cert_loads_def split: option.split)

lemma bare_runtime_flags [simp]:
  "ctx_verify_flags bare_runtime = None"
  "\<not> ctx_has_load_default_certs bare_runtime"
  "\<not> ctx_has_set_default_verify_paths bare_runtime"
  "\<not> HAVE_CERTIFI bare_runtime"
  "\<not> HAVE_WINCERTSTORE bare_runtime"
  "platform bare_runtime = ''linux2''"
  by (simp_all add: bare_runtime_def)

lemma prelude_context_crl [simp]:
  "verify_flags (prelude_context env certfile keyfile (Some crl)) = Some VERIFY_CRL_CHECK_LEAF"
  "verify_locations (prelude_context env certfile keyfile (Some crl)) = [crl]"
  by (simp_all add: prelude_context_def with_crl_def)

text \<open>A runtime without \<^verbatim>\<open>verify_flags\<close>, and one with it where the CRL file and the
  CA file load.\<close>

theorem crl_requires_support_witness:
  "client_cert_loads bare_runtime None None \<and> ctx_verify_flags bare_runtime = None \<and>
   get_ssl_context bare_runtime world0 None None None CERT_REQUIRED (Some ''crl.pem'') =
     (Inl (ConfigurationError crl_message), log [Ev_SSLContext] world0) \<and>
   client_cert_loads crl_runtime None None \<and> ctx_verify_flags crl_runtime \<noteq> None \<and>
   load_verify_locations_err crl_runtime ''crl.pem'' = None \<and>
   get_ssl_context crl_runtime world0 None None (Some ''ca.pem'') CERT_REQUIRED (Some ''crl.pem'') =
     (Inr ((prelude_context crl_runtime None None (Some ''crl.pem''))
             \<lparr>verify_locations := [''crl.pem'', ''ca.pem''], verify_mode := CERT_REQUIRED\<rparr>),
      log [Ev_SSLContext, Ev_load_verify_locations ''crl.pem'',
           Ev_load_verify_locations ''ca.pem''] world0) \<and>
   verify_flags ((prelude_context crl_runtime None None (Some ''crl.pem''))
             \<lparr>verify_locations := [''crl.pem'', ''ca.pem''], verify_mode := CERT_REQUIRED\<rparr>) =
     Some VERIFY_CRL_CHECK_LEAF"
proof -
  have a: "client_cert_loads bare_runtime None None" by simp
  have b: "client_cert_loads crl_runtime None None" by simp
  have h: "get_ssl_context crl_runtime world0 None None (Some ''ca.pem'') CERT_REQUIRED
             (Some ''crl.pem'') =
     (Inr ((prelude_context crl_runtime None None (Some ''crl.pem''))
             \<lparr>verify_locations := [''crl.pem'', ''ca.pem''], verify_mode := CERT_REQUIRED\<rparr>),
      log [Ev_SSLContext, Ev_load_verify_locations ''crl.pem'',
           Ev_load_verify_locations ''ca.pem''] world0)"
    by (simp add: explicit_ca_ok crl_loads_def prelude_events_def cert_events_def crl_events_def)
  from crl_requires_support [OF a, of world0 None CERT_REQUIRED "''crl.pem''"]
       crl_requires_support [OF b, of world0 "Some ''ca.pem''" CERT_REQUIRED "''crl.pem''"] h
  show ?thesis
    by (simp add: cert_events_def)
qed

text \<open>
  Claim C10: lines 106--113 do not look at \<^verbatim>\<open>cert_reqs\<close>. Let the client certificate,
  if any, load and the context have \<^verbatim>\<open>verify_flags\<close>. Whatever \<^verbatim>\<open>cert_reqs\<close> is, the
  CRL file is passed to \<^verbatim>\<open>load_verify_locations\<close>, and every context returned has
  \<^verbatim>\<open>verify_flags\<close> set to \<^verbatim>\<open>VERIFY_CRL_CHECK_LEAF\<close> and the CRL file among its verify
  locations. With \<^verbatim>\<open>cert_reqs = ssl.CERT_NONE\<close>, when the CRL file and the CA file (if
  one is given) load, the call returns a context that has both the CRL check and
  \<^verbatim>\<open>verify_mode = CERT_NONE\<close>.
\<close>

theorem crl_whatever_the_mode:
  assumes "client_cert_loads env certfile keyfile" and "ctx_verify_flags env \<noteq> None"
  shows
  "Ev_load_verify_locations crl \<in>
     set (trace (snd (get_ssl_context env w certfile keyfile ca_certs cert_reqs (Some crl)))) \<and>
   (\<forall>ctx w'. get_ssl_context env w certfile keyfile ca_certs cert_reqs (Some crl) = (Inr ctx, w') \<longrightarrow>
      verify_flags ctx = Some VERIFY_CRL_CHECK_LEAF \<and> crl \<in> set (verify_locations ctx)) \<and>
   (load_verify_locations_err env crl = None \<and>
    (\<forall>ca. ca_certs = Some ca \<longrightarrow> load_verify_locations_err env ca = None) \<longrightarrow>
      (\<exists>ctx w'. get_ssl_context env w certfile keyfile ca_certs CERT_NONE (Some crl) = (Inr ctx, w') \<and>
         verify_flags ctx = Some VERIFY_CRL_CHECK_LEAF \<and> crl \<in> set (verify_locations ctx) \<and>
         verify_mode ctx = CERT_NONE))"
proof -
  have 1: "Ev_load_verify_locations crl \<in>
     set (trace (snd (get_ssl_context env w certfile keyfile ca_certs cert_reqs (Some crl))))"
  proof (cases "load_verify_locations_err env crl")
    case (Some m)
    with assms show ?thesis by (simp add: crl_load_fails)
  next
    case None
    with assms have "crl_loads env (Some crl)" by (simp add: crl_loads_def)
    from after_crl_extends [OF assms(1) this, of w ca_certs cert_reqs] show ?thesis
      by (auto simp add: prelude_events_def crl_events_def)
  qed
  have 2: "\<forall>ctx w'. get_ssl_context env w certfile keyfile ca_certs cert_reqs (Some crl) = (Inr ctx, w') \<longrightarrow>
      verify_flags ctx = Some VERIFY_CRL_CHECK_LEAF \<and> crl \<in> set (verify_locations ctx)"
    by (blast dest: crl_in_result)
  have 3: "\<exists>ctx w'. get_ssl_context env w certfile keyfile ca_certs CERT_NONE (Some crl) = (Inr ctx, w') \<and>
         verify_flags ctx = Some VERIFY_CRL_CHECK_LEAF \<and> crl \<in> set (verify_locations ctx) \<and>
         verify_mode ctx = CERT_NONE"
    if l: "load_verify_locations_err env crl = None"
      and c: "\<forall>ca. ca_certs = Some ca \<longrightarrow> load_verify_locations_err env ca = None"
  proof -
    from assms l have cl: "crl_loads env (Some crl)" by (simp add: crl_loads_def)
    show ?thesis
    proof (cases ca_certs)
      case None
      with assms(1) cl show ?thesis by (simp add: prelude ca_step_none)
    next
      case (Some ca)
      with c have "load_verify_locations_err env ca = None" by simp
      from explicit_ca_ok [OF assms(1) cl this] Some show ?thesis by simp
    qed
  qed
  from 1 2 3 show ?thesis by blast
qed

text \<open>A CRL file with \<^verbatim>\<open>CERT_NONE\<close> and nothing else.\<close>

theorem crl_whatever_the_mode_witness:
  "client_cert_loads crl_runtime None None \<and> ctx_verify_flags crl_runtime \<noteq> None \<and>
   load_verify_locations_err crl_runtime ''crl.pem'' = None \<and>
   get_ssl_context crl_runtime world0 None None None CERT_NONE (Some ''crl.pem'') =
     (Inr ((prelude_context crl_runtime None None (Some ''crl.pem''))\<lparr>verify_mode := CERT_NONE\<rparr>),
      log [Ev_SSLContext, Ev_load_verify_locations ''crl.pem''] world0) \<and>
   verify_flags ((prelude_context crl_runtime None None (Some ''crl.pem''))\<lparr>verify_mode := CERT_NONE\<rparr>) =
     Some VERIFY_CRL_CHECK_LEAF \<and>
   verify_mode ((prelude_context crl_runtime None None (Some ''crl.pem''))\<lparr>verify_mode := CERT_NONE\<rparr>) =
     CERT_NONE"
proof -
  have a: "client_cert_loads crl_runtime None None" by simp
  have f: "ctx_verify_flags crl_runtime \<noteq> None" by simp
  have h: "get_ssl_context crl_runtime world0 None None None CERT_NONE (Some ''crl.pem'') =
     (Inr ((prelude_context crl_runtime None None (Some ''crl.pem''))\<lparr>verify_mode := CERT_NONE\<rparr>),
      log [Ev_SSLContext, Ev_load_verify_locations ''crl.pem''] world0)"
    by (simp add: prelude ca_step_none crl_loads_def prelude_events_def cert_events_def
        crl_events_def)
  from crl_whatever_the_mode [OF a f, of "''crl.pem''" world0 None CERT_NONE] h
  show ?thesis by simp
qed

section \<open>When the search for system CA certificates does not run\<close>

lemma quiet_refl [simp]: "quiet w w"
  unfolding quiet_def by (rule exI [of _ "[]"]) simp













section \<open>The order of the search for system CA certificates\<close>

lemma load_wincerts_ok:
  "CertFile_err env = None \<Longrightarrow>
   load_wincerts env w =
     (Inr (),
      w\<lparr>certfiles_made := Suc (certfiles_made w),
        trace := trace w @ [Ev_CertFile, Ev_addstore ''CA'', Ev_addstore ''ROOT'',
                            Ev_atexit_register (certfiles_made w)],
        atexit_funcs := atexit_funcs w @ [certfiles_made w],
        WINCERTS := Some \<lparr>cf_id = certfiles_made w,
                          cf_name = CertFile_name env (certfiles_made w),
                          cf_stores = [''CA'', ''ROOT'']\<rparr>\<rparr>)"
  by (simp add: load_wincerts_def Let_def log_def)

lemma load_wincerts_fail:
  "CertFile_err env = Some m \<Longrightarrow>
   load_wincerts env w =
     (Inl (OSError m), w\<lparr>certfiles_made := Suc (certfiles_made w), trace := trace w @ [Ev_CertFile]\<rparr>)"
  by (simp add: load_wincerts_def Let_def log_def)

lemma wincerts_step_cached:
  "WINCERTS w = Some cf \<Longrightarrow>
   wincerts_step env ctx w = load_verify_locations env (cf_name cf) ctx w"
  by (simp add: wincerts_step_def)

lemma wincerts_step_trace:
  "trace (snd (wincerts_step env ctx w)) = trace w @ os_store_events env w"
proof (cases "WINCERTS w")
  case (Some cf)
  then show ?thesis
    by (simp add: wincerts_step_cached load_verify_locations_snd os_store_events_def)
next
  case None
  then show ?thesis
    by (cases "CertFile_err env")
       (simp_all add: wincerts_step_def load_wincerts_ok load_wincerts_fail
          load_verify_locations_snd os_store_events_def)
qed

lemma wincerts_step_result:
  assumes "wincerts_step env ctx w = (Inr ctx', w')"
  shows "\<exists>cf. WINCERTS w' = Some cf \<and> verify_locations ctx' = verify_locations ctx @ [cf_name cf]"
proof (cases "WINCERTS w")
  case (Some cf)
  with assms show ?thesis
    by (auto simp add: wincerts_step_cached load_verify_locations_def Let_def log_def
        split: option.splits)
next
  case None
  with assms show ?thesis
    by (cases "CertFile_err env")
       (auto simp add: wincerts_step_def load_wincerts_ok load_wincerts_fail
          load_verify_locations_def Let_def log_def split: option.splits)
qed

lemma ca_step_chain:
  assumes "\<not> py_eq cert_reqs CERT_NONE"
  shows "ca_step env None cert_reqs ctx w =
    (case spec_ca_source env of
       SystemDefault \<Rightarrow> (Inr (ctx\<lparr>default_certs := True\<rparr>), log [Ev_load_default_certs] w)
     | DefaultVerifyPaths \<Rightarrow>
         (Inr (ctx\<lparr>default_verify_paths := True\<rparr>), log [Ev_set_default_verify_paths] w)
     | OSStore \<Rightarrow> wincerts_step env ctx w
     | BundledCA \<Rightarrow>
         load_verify_locations env (certifi_where env) ctx (log [Ev_certifi_where] w)
     | NoTrustMaterial \<Rightarrow> (Inl (ConfigurationError no_ca_message), w))"
  using assms by (simp add: ca_step_def spec_ca_source_def on_os_store_platform_def)

lemma ca_step_chain_trace:
  assumes "\<not> py_eq cert_reqs CERT_NONE"
  shows "trace (snd (ca_step env None cert_reqs ctx w)) =
           trace w @ source_events env w (spec_ca_source env)"
  by (cases "spec_ca_source env")
     (simp_all add: ca_step_chain [OF assms] source_events_def wincerts_step_trace
        load_verify_locations_snd)

lemma and_then_snd_trace:
  "(\<And>a w. snd (f a w) = w) \<Longrightarrow> snd (and_then r f) = snd r"
  by (cases r, rename_tac x w, case_tac x) simp_all

lemma os_store_events_log [simp]: "os_store_events env (log evs w) = os_store_events env w"
  by (simp add: os_store_events_def split: option.split)

lemma source_events_log [simp]: "source_events env (log evs w) src = source_events env w src"
  by (cases src) (simp_all add: source_events_def)

lemma prelude_context_defaults [simp]:
  "\<not> default_certs (prelude_context env certfile keyfile crlfile)"
  "\<not> default_verify_paths (prelude_context env certfile keyfile crlfile)"
  by (simp_all add: prelude_context_def)

text \<open>
  Claim C2: let no CA file be given, \<^verbatim>\<open>cert_reqs\<close> differ from \<^verbatim>\<open>ssl.CERT_NONE\<close>, and
  line 114 be reached. Then the library calls of \<^verbatim>\<open>get_ssl_context\<close> are those made on
  the way to line 114 followed by the calls of exactly one source, the first that applies
  in the order of the specification: the default-certificate loader; off the OS-store
  platform, the default verify paths; on it, the OS store; the bundled CA file; and when
  none applies, no further call and the \<^verbatim>\<open>ConfigurationError\<close> of line 132.
\<close>

theorem ca_resolution_order:
  assumes "ca_certs = None" and "\<not> py_eq cert_reqs CERT_NONE"
    and "client_cert_loads env certfile keyfile" and "crl_loads env crlfile"
  shows
  "trace (snd (get_ssl_context env w certfile keyfile ca_certs cert_reqs crlfile)) =
     trace w @ prelude_events certfile keyfile crlfile @ source_events env w (spec_ca_source env) \<and>
   (case spec_ca_source env of
      SystemDefault \<Rightarrow>
        (\<exists>ctx. fst (get_ssl_context env w certfile keyfile ca_certs cert_reqs crlfile) = Inr ctx \<and> default_certs ctx \<and> \<not> default_verify_paths ctx)
    | DefaultVerifyPaths \<Rightarrow>
        (\<exists>ctx. fst (get_ssl_context env w certfile keyfile ca_certs cert_reqs crlfile) = Inr ctx \<and> default_verify_paths ctx \<and> \<not> default_certs ctx)
    | OSStore \<Rightarrow>
        (\<forall>ctx. fst (get_ssl_context env w certfile keyfile ca_certs cert_reqs crlfile) = Inr ctx \<longrightarrow>
           (\<exists>cf. WINCERTS (snd (get_ssl_context env w certfile keyfile ca_certs cert_reqs crlfile)) = Some cf \<and> last (verify_locations ctx) = cf_name cf))
    | BundledCA \<Rightarrow>
        (\<forall>ctx. fst (get_ssl_context env w certfile keyfile ca_certs cert_reqs crlfile) = Inr ctx \<longrightarrow> last (verify_locations ctx) = certifi_where env)
    | NoTrustMaterial \<Rightarrow> fst (get_ssl_context env w certfile keyfile ca_certs cert_reqs crlfile) = Inl (ConfigurationError no_ca_message))"
proof -
  let ?P = "prelude_context env certfile keyfile crlfile"
  let ?W = "log (prelude_events certfile keyfile crlfile) w"
  let ?fin = "\<lambda>ctx w. (Inr (ctx\<lparr>verify_mode := final_mode cert_reqs\<rparr>), w)"
  have g: "get_ssl_context env w certfile keyfile ca_certs cert_reqs crlfile = and_then (ca_step env None cert_reqs ?P ?W) ?fin"
    using assms by (simp add: prelude)
  have "snd (get_ssl_context env w certfile keyfile ca_certs cert_reqs crlfile) = snd (ca_step env None cert_reqs ?P ?W)"
    unfolding g by (rule and_then_snd_trace) simp
  then have t: "trace (snd (get_ssl_context env w certfile keyfile ca_certs cert_reqs crlfile)) =
     trace w @ prelude_events certfile keyfile crlfile @ source_events env w (spec_ca_source env)"
    by (simp add: ca_step_chain_trace [OF assms(2)])
  have r: "case spec_ca_source env of
      SystemDefault \<Rightarrow>
        (\<exists>ctx. fst (get_ssl_context env w certfile keyfile ca_certs cert_reqs crlfile) = Inr ctx \<and> default_certs ctx \<and> \<not> default_verify_paths ctx)
    | DefaultVerifyPaths \<Rightarrow>
        (\<exists>ctx. fst (get_ssl_context env w certfile keyfile ca_certs cert_reqs crlfile) = Inr ctx \<and> default_verify_paths ctx \<and> \<not> default_certs ctx)
    | OSStore \<Rightarrow>
        (\<forall>ctx. fst (get_ssl_context env w certfile keyfile ca_certs cert_reqs crlfile) = Inr ctx \<longrightarrow>
           (\<exists>cf. WINCERTS (snd (get_ssl_context env w certfile keyfile ca_certs cert_reqs crlfile)) = Some cf \<and> last (verify_locations ctx) = cf_name cf))
    | BundledCA \<Rightarrow>
        (\<forall>ctx. fst (get_ssl_context env w certfile keyfile ca_certs cert_reqs crlfile) = Inr ctx \<longrightarrow> last (verify_locations ctx) = certifi_where env)
    | NoTrustMaterial \<Rightarrow> fst (get_ssl_context env w certfile keyfile ca_certs cert_reqs crlfile) = Inl (ConfigurationError no_ca_message)"
  proof (cases "spec_ca_source env")
    case SystemDefault
    then show ?thesis by (simp add: g ca_step_chain [OF assms(2)])
  next
    case DefaultVerifyPaths
    then show ?thesis by (simp add: g ca_step_chain [OF assms(2)])
  next
    case OSStore
    obtain x w1 where s: "wincerts_step env ?P ?W = (x, w1)"
      by (cases "wincerts_step env ?P ?W")
    show ?thesis
    proof (cases x)
      case (Inl e)
      with OSStore s show ?thesis by (simp add: g ca_step_chain [OF assms(2)])
    next
      case (Inr c)
      with s wincerts_step_result [of env ?P ?W c w1] OSStore show ?thesis
        by (auto simp add: g ca_step_chain [OF assms(2)])
    qed
  next
    case BundledCA
    then show ?thesis
      by (cases "load_verify_locations_err env (certifi_where env)")
         (simp_all add: g ca_step_chain [OF assms(2)] load_verify_locations_cases)
  next
    case NoTrustMaterial
    then show ?thesis by (simp add: g ca_step_chain [OF assms(2)])
  qed
  from t r show ?thesis ..
qed

text \<open>\<^verbatim>\<open>CERT_REQUIRED\<close>, no CA file and no source of CA certificates: the call
  fails with the \<^verbatim>\<open>ConfigurationError\<close> of line 132.\<close>

theorem ca_resolution_order_witness:
  "\<not> py_eq CERT_REQUIRED CERT_NONE \<and> client_cert_loads bare_runtime None None \<and>
   crl_loads bare_runtime None \<and> spec_ca_source bare_runtime = NoTrustMaterial \<and>
   fst (get_ssl_context bare_runtime world0 None None None CERT_REQUIRED None) =
     Inl (ConfigurationError no_ca_message) \<and>
   trace (snd (get_ssl_context bare_runtime world0 None None None CERT_REQUIRED None)) =
     [Ev_SSLContext]"
proof -
  have s: "spec_ca_source bare_runtime = NoTrustMaterial"
    by (simp add: spec_ca_source_def)
  from ca_resolution_order [of None CERT_REQUIRED bare_runtime None None None world0] s
  show ?thesis
    by (simp add: source_events_def world0_def)
qed

section \<open>One load of the OS store, whatever the interleaving\<close>

lemma goto_fields [simp]:
  "pcs (goto t p s) = (pcs s)[t := p]"
  "shared (goto t p s) = shared s"
  "lock (goto t p s) = lock s"
  by (simp_all add: goto_def)



lemma pc_ok_log [simp]: "pc_ok env (log evs sh) p = pc_ok env sh p"
  by (cases p) simp_all

lemma pc_ok_log_fun [simp]: "pc_ok env (log evs sh) = pc_ok env sh"
  by (rule ext) simp

















lemma win_runtime_CertFile [simp]: "CertFile_err win_runtime = None"
  by (simp add: win_runtime_def bare_runtime_def)


text \<open>A caller that runs alone from line 125 changes the shared state as
  \<open>wincerts_step\<close>, the sequential reading of lines 125--128, does.\<close>

lemma caller_alone_agrees:
  assumes "t < length (pcs s)" and "pcs s ! t = AtLock" and "lock s = None"
  shows "shared (run_schedule env [t, t, t, t, t, t, t, t, t] s) =
           snd (wincerts_step env ctx (shared s))"
proof (cases "WINCERTS (shared s)")
  case (Some cf)
  with assms show ?thesis
    by (simp add: thread_step_def wincerts_step_cached load_verify_locations_snd)
next
  case None
  show ?thesis
  proof (cases "CertFile_err env")
    case (Some m)
    with None assms show ?thesis
      by (simp add: thread_step_def Let_def wincerts_step_def load_wincerts_fail log_def)
  next
    case e: None
    with None assms show ?thesis
      by (simp add: thread_step_def Let_def wincerts_step_def load_wincerts_ok
          load_verify_locations_snd log_def)
  qed
qed

text \<open>When \<^verbatim>\<open>CertFile()\<close> raises, \<^verbatim>\<open>_WINCERTS\<close> stays \<^verbatim>\<open>None\<close> and the lock is
  released, so the next caller reads the store again: two callers, one after the other,
  make two \<^verbatim>\<open>CertFile()\<close> calls and both fail.\<close>

lemma failed_load_is_retried:
  "run_schedule broken_store_runtime [0, 0, 0, 0, 1, 1, 1, 1] (callers 2) =
     \<lparr>shared =
        \<lparr>WINCERTS = None, atexit_funcs = [], certfiles_made = 2,
         trace = [Ev_CertFile, Ev_CertFile]\<rparr>,
      lock = None,
      pcs = [Failed (OSError ''store''), Failed (OSError ''store'')]\<rparr>"
  by code_simp

end
